theory Spec2Isabelle
  imports Main "HOL-Library.Word" "HOL-Library.AList"
begin

unbundle bit_operations_syntax

section \<open>Python values\<close>

text \<open>
  The chatbot of \<^verbatim>\<open>main.py\<close> moves decoded JSON around: the language model's
  reply, the intent parsed from it and the forecast payload. A decoded JSON value is
  \<open>None\<close>, a bool, an int, a float, a str, a list or a dict with str keys. A float is
  kept as its IEEE 754 binary64 bit pattern; a dict is an association list in insertion
  order, looked up with \<open>map_of\<close>. A Python string is a \<open>string\<close> whose characters are
  the code points below 256.
\<close>

datatype error =
  HTTPError | JSONDecodeError | KeyError | IndexError | TypeError | AttributeError | ValueError

datatype json =
  JNull
  | JBool bool
  | JInt int
  | JFloat "64 word"
  | JStr string
  | JArr "json list"
  | JObj "(string \<times> json) list"

text \<open>Python's truth test, as \<open>not x\<close> and \<open>if x\<close> apply it.\<close>

fun truthy :: "json \<Rightarrow> bool" where
  "truthy JNull = False"
| "truthy (JBool b) = b"
| "truthy (JInt i) = (i \<noteq> 0)"
| "truthy (JFloat w) = (w AND 0x7FFFFFFFFFFFFFFF \<noteq> 0)"
| "truthy (JStr s) = (s \<noteq> [])"
| "truthy (JArr xs) = (xs \<noteq> [])"
| "truthy (JObj kvs) = (kvs \<noteq> [])"

text \<open>\<open>d.get(k, default)\<close> on a dict.\<close>

definition dict_get :: "(string \<times> json) list \<Rightarrow> string \<Rightarrow> json \<Rightarrow> json" where
  "dict_get kvs k d = (case map_of kvs k of Some v \<Rightarrow> v | None \<Rightarrow> d)"

text \<open>\<open>x.get(k, default)\<close> on any value: only a dict has the method.\<close>

fun py_get :: "json \<Rightarrow> string \<Rightarrow> json \<Rightarrow> error + json" where
  "py_get (JObj kvs) k d = Inr (dict_get kvs k d)"
| "py_get _ k d = Inl AttributeError"

text \<open>\<open>x[k]\<close> with a str key \<open>k\<close>.\<close>

fun getitem_key :: "json \<Rightarrow> string \<Rightarrow> error + json" where
  "getitem_key (JObj kvs) k = (case map_of kvs k of Some v \<Rightarrow> Inr v | None \<Rightarrow> Inl KeyError)"
| "getitem_key _ k = Inl TypeError"

text \<open>\<open>x[i]\<close> with an index \<open>i \<ge> 0\<close>; a dict of str keys has no int key.\<close>

fun getitem_index :: "json \<Rightarrow> nat \<Rightarrow> error + json" where
  "getitem_index (JArr xs) i = (if i < length xs then Inr (xs ! i) else Inl IndexError)"
| "getitem_index (JStr s) i = (if i < length s then Inr (JStr [s ! i]) else Inl IndexError)"
| "getitem_index (JObj kvs) i = Inl KeyError"
| "getitem_index _ i = Inl TypeError"

text \<open>\<open>k in x\<close> with a str \<open>k\<close>: a key of a dict, an element of a list, a substring of a str.\<close>

fun contains_str :: "string \<Rightarrow> string \<Rightarrow> bool" where
  "contains_str [] k = (k = [])"
| "contains_str (c # cs) k = (take (length k) (c # cs) = k \<or> contains_str cs k)"

fun py_contains :: "json \<Rightarrow> string \<Rightarrow> error + bool" where
  "py_contains (JObj kvs) k = Inr (k \<in> set (map fst kvs))"
| "py_contains (JArr xs) k = Inr (JStr k \<in> set xs)"
| "py_contains (JStr s) k = Inr (contains_str s k)"
| "py_contains _ k = Inl TypeError"

text \<open>\<open>for p in x\<close>: the elements of a list, the characters of a str, the keys of a dict.\<close>

fun py_iter :: "json \<Rightarrow> error + json list" where
  "py_iter (JArr xs) = Inr xs"
| "py_iter (JStr s) = Inr (map (\<lambda>c. JStr [c]) s)"
| "py_iter (JObj kvs) = Inr (map (\<lambda>kv. JStr (fst kv)) kvs)"
| "py_iter _ = Inl TypeError"

text \<open>Sequencing of a step that may raise.\<close>

definition and_then :: "error + 'a \<Rightarrow> ('a \<Rightarrow> error + 'b) \<Rightarrow> error + 'b" where
  "and_then r f = (case r of Inl e \<Rightarrow> Inl e | Inr x \<Rightarrow> f x)"

section \<open>Strings\<close>

text \<open>\<open>str.lower()\<close> on code points below 256: A-Z, and the Latin-1 capitals but the
  multiplication sign.\<close>

definition lower_char :: "char \<Rightarrow> char" where
  "lower_char c =
     (let n = of_char c :: nat in
      if (65 \<le> n \<and> n \<le> 90) \<or> (192 \<le> n \<and> n \<le> 222 \<and> n \<noteq> 215) then char_of (n + 32) else c)"

definition lower :: "string \<Rightarrow> string" where
  "lower s = map lower_char s"

text \<open>\<open>str.strip()\<close>: the whitespace code points below 256.\<close>

definition is_space :: "char \<Rightarrow> bool" where
  "is_space c =
     (let n = of_char c :: nat in
      (9 \<le> n \<and> n \<le> 13) \<or> (28 \<le> n \<and> n \<le> 32) \<or> n = 133 \<or> n = 160)"

definition strip :: "string \<Rightarrow> string" where
  "strip s = rev (dropWhile is_space (rev (dropWhile is_space s)))"

fun py_strip :: "json \<Rightarrow> error + string" where
  "py_strip (JStr s) = Inr (strip s)"
| "py_strip _ = Inl AttributeError"

text \<open>\<open>",".join(xs)\<close>.\<close>

fun join_comma :: "string list \<Rightarrow> string" where
  "join_comma [] = []"
| "join_comma [x] = x"
| "join_comma (x # y # ys) = x @ '','' @ join_comma (y # ys)"

section \<open>The parameter mapping\<close>

definition PARAM_MAPPING :: "(string \<times> string) list" where
  "PARAM_MAPPING =
     [(''temperature'', ''temperature_2m''),
      (''humidity'', ''relative_humidity_2m''),
      (''precipitation'', ''precipitation''),
      (''wind_speed'', ''wind_speed_10m''),
      (''wind'', ''wind_speed_10m''),
      (''weather'', ''weather_code''),
      (''pressure'', ''pressure_msl''),
      (''cloud_cover'', ''cloud_cover''),
      (''clouds'', ''cloud_cover'')]"

text \<open>\<open>PARAM_MAPPING.get(param.lower(), param)\<close> for a str \<open>param\<close>.\<close>

definition map_param :: "string \<Rightarrow> string" where
  "map_param param = (case map_of PARAM_MAPPING (lower param) of Some m \<Rightarrow> m | None \<Rightarrow> param)"

text \<open>The same on any value: only a str has \<open>lower\<close>.\<close>

fun mapped_param :: "json \<Rightarrow> error + string" where
  "mapped_param (JStr s) = Inr (map_param s)"
| "mapped_param _ = Inl AttributeError"

section \<open>The outside world\<close>

text \<open>
  A chat-completion message is a role and a content. Every outbound request is written to
  a log, in order. The two endpoints answer a request with a decoded JSON body, or fail
  (a network failure, a timeout, a non-success status, a body that is not JSON); what they
  answer may depend on everything requested before. \<open>json.loads\<close>, \<open>json.dumps(x, indent=2)\<close>
  and \<open>repr\<close> are the Python library's, taken as they are.
\<close>

type_synonym message = "string \<times> string"

datatype event =
  LLMPost "message list"
  | ForecastGet json json string

fun is_forecast :: "event \<Rightarrow> bool" where
  "is_forecast (ForecastGet lat lon cur) = True"
| "is_forecast (LLMPost ms) = False"

record env =
  llm_endpoint :: "event list \<Rightarrow> message list \<Rightarrow> error + json"
  forecast_endpoint :: "event list \<Rightarrow> json \<Rightarrow> json \<Rightarrow> string \<Rightarrow> error + json"
  json_loads :: "string \<Rightarrow> error + json"
  json_dumps :: "json \<Rightarrow> string"
  py_repr :: "json \<Rightarrow> string"

text \<open>\<open>f"{x}"\<close>: a str is itself, anything else is printed by \<open>repr\<close>.\<close>

fun py_str :: "env \<Rightarrow> json \<Rightarrow> string" where
  "py_str E (JStr s) = s"
| "py_str E j = py_repr E j"

text \<open>The lines of a triple-quoted literal, a line feed between two of them.\<close>

fun join_lines :: "string list \<Rightarrow> string" where
  "join_lines [] = []"
| "join_lines [l] = l"
| "join_lines (l # m # ls) = l @ [CHR 0x0A] @ join_lines (m # ls)"

section \<open>call_llm\<close>

text \<open>
  \<open>call_llm(messages)\<close> declares one parameter. A call that passes a keyword argument
  the function does not declare raises \<open>TypeError\<close> before the body runs; \<open>kwargs\<close> are
  the names of the keyword arguments of the call. The body posts the messages, raises on
  a non-success status and decodes the body.
\<close>

definition call_llm ::
  "env \<Rightarrow> event list \<Rightarrow> message list \<Rightarrow> string list \<Rightarrow> (error + json) \<times> event list" where
  "call_llm E log messages kwargs =
     (if kwargs \<noteq> [] then (Inl TypeError, log)
      else (llm_endpoint E log messages, log @ [LLMPost messages]))"

text \<open>\<open>llm_response["choices"][0]["message"]["content"].strip()\<close>.\<close>

definition message_content :: "json \<Rightarrow> error + string" where
  "message_content llm_response =
     and_then (getitem_key llm_response ''choices'') (\<lambda>choices.
     and_then (getitem_index choices 0) (\<lambda>choice.
     and_then (getitem_key choice ''message'') (\<lambda>msg.
     and_then (getitem_key msg ''content'') py_strip)))"

section \<open>detect_intent\<close>

definition intent_system_prompt :: string where
  \<open>intent_system_prompt = join_lines
     [''You are a weather query analyzer. Your task is to determine if the user's message is asking about weather and extract relevant information.'',
      [],
      ''You must respond with ONLY valid JSON in this exact format:'',
      [],
      ''For weather queries:'',
      ''{'',
      ''  "is_weather_query": true,'',
      ''  "location": "City Name",'',
      ''  "parameters": ["temperature", "humidity"],'',
      ''  "timeframe": "current",'',
      ''  "latitude": 28.6139,'',
      ''  "longitude": 77.2090'',
      ''}'',
      [],
      ''For non-weather queries:'',
      ''{'',
      ''  "is_weather_query": false'',
      ''}'',
      [],
      ''Important rules:'',
      ''1. Extract the city/location name from the query'',
      ''2. Determine what weather parameters the user wants (temperature, humidity, precipitation, wind_speed, etc.)'',
      ''3. Provide accurate latitude and longitude for the location'',
      ''4. If no specific parameters are mentioned, default to ["temperature"]'',
      ''5. Timeframe should always be "current" for now'',
      ''6. Return ONLY the JSON, no other text or explanation'']\<close>

text \<open>\<open>content.index("{")\<close>, where the character occurs.\<close>

definition index_of :: "char \<Rightarrow> string \<Rightarrow> nat" where
  "index_of c s = length (takeWhile (\<lambda>x. x \<noteq> c) s)"

text \<open>\<open>content.rindex("}")\<close>: \<open>ValueError\<close> where the character does not occur.\<close>

definition rindex_of :: "char \<Rightarrow> string \<Rightarrow> error + nat" where
  "rindex_of c s =
     (if c \<in> set s then Inr (length s - 1 - length (takeWhile (\<lambda>x. x \<noteq> c) (rev s)))
      else Inl ValueError)"

text \<open>\<open>s[a:b]\<close> for \<open>0 \<le> a\<close> and \<open>0 \<le> b\<close>.\<close>

definition slice :: "string \<Rightarrow> nat \<Rightarrow> nat \<Rightarrow> string" where
  "slice s a b = drop a (take b s)"

text \<open>Lines 100 to 104: the text that is handed to \<open>json.loads\<close>.\<close>

definition extract_json :: "string \<Rightarrow> error + string" where
  "extract_json content =
     (if CHR ''{'' \<in> set content then
        (let start = index_of CHR ''{'' content in
         and_then (rindex_of CHR ''}'' content) (\<lambda>r.
           let stop = r + 1 in Inr (slice content start stop)))
      else Inr content)"

text \<open>The body of the \<open>try\<close> after the call: lines 98 to 107.\<close>

definition parse_intent :: "env \<Rightarrow> json \<Rightarrow> error + json" where
  "parse_intent E llm_response =
     and_then (message_content llm_response) (\<lambda>content.
     and_then (extract_json content) (\<lambda>content.
     json_loads E content))"

definition not_weather :: json where
  "not_weather = JObj [(''is_weather_query'', JBool False)]"

definition detect_intent :: "env \<Rightarrow> event list \<Rightarrow> string \<Rightarrow> (error + json) \<times> event list" where
  "detect_intent E log user_input =
     (let messages = [(''system'', intent_system_prompt), (''user'', user_input)] in
      case call_llm E log messages [] of
        (r, log') \<Rightarrow>
          (case and_then r (parse_intent E) of
             Inr intent_data \<Rightarrow> (Inr intent_data, log')
           | Inl e \<Rightarrow> (Inr not_weather, log')))"

section \<open>fetch_weather\<close>

text \<open>The loop of lines 116 to 119; it raises at the first parameter that is no str.\<close>

fun api_params :: "json list \<Rightarrow> error + string list" where
  "api_params [] = Inr []"
| "api_params (param # ps) =
     and_then (mapped_param param) (\<lambda>mapped.
     and_then (api_params ps) (\<lambda>rest. Inr (mapped # rest)))"

definition fetch_weather ::
  "env \<Rightarrow> event list \<Rightarrow> json \<Rightarrow> json \<Rightarrow> json \<Rightarrow> (error + json) \<times> event list" where
  "fetch_weather E log latitude longitude parameters =
     (case and_then (py_iter parameters) api_params of
        Inl e \<Rightarrow> (Inl e, log)
      | Inr aps \<Rightarrow>
          (let current = join_comma aps in
           (forecast_endpoint E log latitude longitude current,
            log @ [ForecastGet latitude longitude current])))"

section \<open>format_response\<close>

text \<open>
  The loop of lines 144 to 148. \<open>data_dict[k] = v\<close> overwrites the value of a key that is
  there and appends a new key, as \<open>AList.update\<close> does.
\<close>

fun build_data_dict ::
  "json \<Rightarrow> json list \<Rightarrow> (string \<times> json) list \<Rightarrow> error + (string \<times> json) list" where
  "build_data_dict current [] data_dict = Inr data_dict"
| "build_data_dict current (param # ps) data_dict =
     and_then (mapped_param param) (\<lambda>mapped.
     and_then (py_contains current mapped) (\<lambda>present.
       if present then
         and_then (getitem_key current mapped) (\<lambda>v.
           build_data_dict current ps (AList.update mapped v data_dict))
       else build_data_dict current ps data_dict))"

definition format_system_prompt :: string where
  "format_system_prompt = join_lines
     [''You are a friendly weather assistant. Format the provided weather data into a natural, conversational response.'',
      [],
      ''Rules:'',
      ''1. Use ONLY the data provided - do not make up or hallucinate information'',
      ''2. Include units properly ('' @ [CHR 0xB0] @ ''C, %, mm, etc.)'',
      ''3. Keep the response concise and friendly'',
      ''4. Mention the location clearly'',
      ''5. If data is missing, acknowledge it politely'']"

definition format_user_prompt :: "env \<Rightarrow> json \<Rightarrow> (string \<times> json) list \<Rightarrow> json \<Rightarrow> string" where
  "format_user_prompt E location data_dict current_units = join_lines
     [''Location: '' @ py_str E location,
      [],
      ''Weather Data: '' @ json_dumps E (JObj data_dict),
      [],
      ''Units: '' @ json_dumps E current_units,
      [],
      ''Format this into a natural conversational response.'']"

text \<open>The fallback of line 180.\<close>

definition format_fallback :: "env \<Rightarrow> json \<Rightarrow> (string \<times> json) list \<Rightarrow> string" where
  "format_fallback E location data_dict =
     ''Weather data for '' @ py_str E location @ '': '' @ py_repr E (JObj data_dict)"

definition format_response ::
  "env \<Rightarrow> event list \<Rightarrow> json \<Rightarrow> json \<Rightarrow> json \<Rightarrow> (error + string) \<times> event list" where
  "format_response E log location weather_data parameters =
     (case py_get weather_data ''current'' (JObj []) of
        Inl e \<Rightarrow> (Inl e, log)
      | Inr current \<Rightarrow>
     (case and_then (py_iter parameters) (\<lambda>ps. build_data_dict current ps []) of
        Inl e \<Rightarrow> (Inl e, log)
      | Inr data_dict \<Rightarrow>
     (case py_get weather_data ''current_units'' (JObj []) of
        Inl e \<Rightarrow> (Inl e, log)
      | Inr current_units \<Rightarrow>
     (let messages =
            [(''system'', format_system_prompt),
             (''user'', format_user_prompt E location data_dict current_units)] in
      case call_llm E log messages [] of
        (r, log') \<Rightarrow>
          (case and_then r message_content of
             Inr text \<Rightarrow> (Inr text, log')
           | Inl e \<Rightarrow> (Inr (format_fallback E location data_dict), log'))))))"

section \<open>handle_non_weather_query\<close>

definition general_system_prompt :: string where
  "general_system_prompt =
     ''You are a helpful assistant. Answer the user's question naturally and concisely.''"

definition general_apology :: string where
  "general_apology =
     ''I'm sorry, I couldn't process your request at the moment. Please try again.''"

text \<open>Line 192 calls \<open>call_llm(messages, temperature=0.7)\<close>.\<close>

definition handle_non_weather_query ::
  "env \<Rightarrow> event list \<Rightarrow> string \<Rightarrow> (error + string) \<times> event list" where
  "handle_non_weather_query E log user_input =
     (let messages = [(''system'', general_system_prompt), (''user'', user_input)] in
      case call_llm E log messages [''temperature''] of
        (r, log') \<Rightarrow>
          (case and_then r message_content of
             Inr text \<Rightarrow> (Inr text, log')
           | Inl e \<Rightarrow> (Inr general_apology, log')))"

section \<open>chat\<close>

record ChatResponse =
  response :: string

datatype http_exception = HTTPException nat string

definition server_error :: http_exception where
  "server_error =
     HTTPException 500 ''An error occurred while processing your request. Please try again.''"

definition clarification :: string where
  "clarification =
     ''I couldn't determine the location coordinates. Could you please be more specific about the location?''"

definition fetch_apology :: "env \<Rightarrow> json \<Rightarrow> string" where
  "fetch_apology E location =
     ''I'm sorry, I couldn't fetch the weather data for '' @ py_str E location
       @ '' at the moment. Please try again later.''"

text \<open>
  The endpoint. Whatever is raised inside the outer \<open>try\<close> and not caught on the way
  becomes the HTTP 500 of lines 234 to 238; the log is kept as it was when it was raised.
\<close>

definition chat ::
  "env \<Rightarrow> event list \<Rightarrow> string \<Rightarrow> (http_exception + ChatResponse) \<times> event list" where
  "chat E log message =
     (case detect_intent E log message of
        (Inl e, log1) \<Rightarrow> (Inl server_error, log1)
      | (Inr intent, log1) \<Rightarrow>
     (case py_get intent ''is_weather_query'' (JBool False) of
        Inl e \<Rightarrow> (Inl server_error, log1)
      | Inr is_weather_query \<Rightarrow>
          if \<not> truthy is_weather_query then
            (case handle_non_weather_query E log1 message of
               (Inl e, log2) \<Rightarrow> (Inl server_error, log2)
             | (Inr response_text, log2) \<Rightarrow> (Inr \<lparr>response = response_text\<rparr>, log2))
          else
     (case py_get intent ''location'' (JStr ''Unknown'') of
        Inl e \<Rightarrow> (Inl server_error, log1)
      | Inr location \<Rightarrow>
     (case py_get intent ''latitude'' JNull of
        Inl e \<Rightarrow> (Inl server_error, log1)
      | Inr latitude \<Rightarrow>
     (case py_get intent ''longitude'' JNull of
        Inl e \<Rightarrow> (Inl server_error, log1)
      | Inr longitude \<Rightarrow>
     (case py_get intent ''parameters'' (JArr [JStr ''temperature'']) of
        Inl e \<Rightarrow> (Inl server_error, log1)
      | Inr parameters \<Rightarrow>
          if \<not> truthy latitude \<or> \<not> truthy longitude then
            (Inr \<lparr>response = clarification\<rparr>, log1)
          else
            (case fetch_weather E log1 latitude longitude parameters of
               (Inl e, log2) \<Rightarrow> (Inr \<lparr>response = fetch_apology E location\<rparr>, log2)
             | (Inr weather_data, log2) \<Rightarrow>
                 (case format_response E log2 location weather_data parameters of
                    (Inl e, log3) \<Rightarrow> (Inl server_error, log3)
                  | (Inr response_text, log3) \<Rightarrow>
                      (Inr \<lparr>response = response_text\<rparr>, log3)))))))))"

section \<open>Definitions used to state the properties\<close>

text \<open>
  The specification's wording of the extraction, for comparison with \<open>extract_json\<close>:
  the first balanced \<open>{...}\<close> substring runs from the first opening brace to the closing
  brace that matches it. \<open>balanced_end\<close> scans with the nesting depth and the number of
  characters read so far.
\<close>

fun balanced_end :: "string \<Rightarrow> nat \<Rightarrow> nat \<Rightarrow> nat option" where
  "balanced_end [] depth n = None"
| "balanced_end (c # cs) depth n =
     (if c = CHR ''{'' then balanced_end cs (Suc depth) (Suc n)
      else if c = CHR ''}'' then
        (if depth \<le> 1 then Some (Suc n) else balanced_end cs (depth - 1) (Suc n))
      else balanced_end cs depth (Suc n))"

definition spec_first_balanced :: "string \<Rightarrow> string option" where
  "spec_first_balanced s =
     (let rest = dropWhile (\<lambda>c. c \<noteq> CHR ''{'') s in
      case balanced_end rest 0 0 of None \<Rightarrow> None | Some n \<Rightarrow> Some (take n rest))"

text \<open>The messages of the intent call and of the formatting call.\<close>

definition intent_messages :: "string \<Rightarrow> message list" where
  "intent_messages user_input = [(''system'', intent_system_prompt), (''user'', user_input)]"

definition format_messages ::
  "env \<Rightarrow> json \<Rightarrow> (string \<times> json) list \<Rightarrow> json \<Rightarrow> message list" where
  "format_messages E location data_dict current_units =
     [(''system'', format_system_prompt),
      (''user'', format_user_prompt E location data_dict current_units)]"

text \<open>A chat-completion body whose first choice carries the given text.\<close>

definition llm_reply :: "string \<Rightarrow> json" where
  "llm_reply content =
     JObj [(''choices'',
            JArr [JObj [(''message'',
                        JObj [(''role'', JStr ''assistant''), (''content'', JStr content)])]])]"

text \<open>
  A test double of the outside world: the language model answers by \<open>llm\<close>, the
  forecast service by \<open>forecast\<close>, \<open>json.loads\<close> is \<open>loads\<close>, and the two printers
  print a placeholder.
\<close>

definition stub_env ::
  "(event list \<Rightarrow> message list \<Rightarrow> error + json) \<Rightarrow> (string \<Rightarrow> error + json) \<Rightarrow>
   (string \<Rightarrow> error + json) \<Rightarrow> env" where
  "stub_env llm forecast loads =
     \<lparr>llm_endpoint = llm,
      forecast_endpoint = (\<lambda>log latitude longitude. forecast),
      json_loads = loads,
      json_dumps = (\<lambda>j. ''<json>''),
      py_repr = (\<lambda>j. ''<repr>'')\<rparr>"

text \<open>A \<open>json.loads\<close> that knows one text.\<close>

definition loads_only :: "string \<Rightarrow> json \<Rightarrow> string \<Rightarrow> error + json" where
  "loads_only known j s = (if s = known then Inr j else Inl JSONDecodeError)"

text \<open>A language model that always answers with the same body, and services that are down.\<close>

definition llm_says :: "json \<Rightarrow> event list \<Rightarrow> message list \<Rightarrow> error + json" where
  "llm_says body log messages = Inr body"

definition llm_down :: "event list \<Rightarrow> message list \<Rightarrow> error + json" where
  "llm_down log messages = Inl HTTPError"

definition forecast_down :: "string \<Rightarrow> error + json" where
  "forecast_down current = Inl HTTPError"

definition forecast_says :: "json \<Rightarrow> string \<Rightarrow> error + json" where
  "forecast_says body current = Inr body"

text \<open>A language model that answers the first request of the log and fails afterwards.\<close>

definition llm_once :: "json \<Rightarrow> event list \<Rightarrow> message list \<Rightarrow> error + json" where
  "llm_once body log messages = (if log = [] then Inr body else Inl HTTPError)"

text \<open>
  Texts of the language model and the intents they decode to: a weather query for Pune
  (18.5 N, 73.875 E) without parameters, one for Greenwich (51.5 N, 0.0 E), one that
  names no coordinates, and a question that is no weather query.
\<close>

definition pune_text :: string where
  \<open>pune_text =
     ''{"is_weather_query": true, "location": "Pune", "latitude": 18.5, "longitude": 73.875}''\<close>

definition pune_intent :: "(string \<times> json) list" where
  "pune_intent =
     [(''is_weather_query'', JBool True), (''location'', JStr ''Pune''),
      (''latitude'', JFloat 0x4032800000000000), (''longitude'', JFloat 0x4052780000000000)]"

definition greenwich_text :: string where
  \<open>greenwich_text =
     ''{"is_weather_query": true, "location": "Greenwich", "latitude": 51.5, "longitude": 0.0}''\<close>

definition greenwich_intent :: "(string \<times> json) list" where
  "greenwich_intent =
     [(''is_weather_query'', JBool True), (''location'', JStr ''Greenwich''),
      (''latitude'', JFloat 0x4049C00000000000), (''longitude'', JFloat 0)]"

definition coast_text :: string where
  \<open>coast_text = ''{"is_weather_query": true, "location": "the coast"}''\<close>

definition coast_intent :: "(string \<times> json) list" where
  "coast_intent = [(''is_weather_query'', JBool True), (''location'', JStr ''the coast'')]"

definition joke_text :: string where
  \<open>joke_text = ''{"is_weather_query": false}''\<close>

definition joke_intent :: "(string \<times> json) list" where
  "joke_intent = [(''is_weather_query'', JBool False)]"

text \<open>A forecast payload: 28.5 degrees.\<close>

definition pune_payload :: "(string \<times> json) list" where
  "pune_payload =
     [(''current'', JObj [(''time'', JStr ''2025-06-01T12:00''),
                          (''temperature_2m'', JFloat 0x403C800000000000)]),
      (''current_units'', JObj [(''temperature_2m'', JStr ([CHR 0xB0] @ ''C''))])]"

section \<open>Properties of the parameter mapping\<close>

lemma lower_code_fixed:
  "lower ''temperature_2m'' = ''temperature_2m''"
  "lower ''relative_humidity_2m'' = ''relative_humidity_2m''"
  "lower ''precipitation'' = ''precipitation''"
  "lower ''wind_speed_10m'' = ''wind_speed_10m''"
  "lower ''weather_code'' = ''weather_code''"
  "lower ''pressure_msl'' = ''pressure_msl''"
  "lower ''cloud_cover'' = ''cloud_cover''"
  by (simp_all add: lower_def lower_char_def)

lemma lower_key_fixed:
  "lower ''temperature'' = ''temperature''"
  "lower ''humidity'' = ''humidity''"
  "lower ''wind_speed'' = ''wind_speed''"
  "lower ''wind'' = ''wind''"
  "lower ''weather'' = ''weather''"
  "lower ''pressure'' = ''pressure''"
  "lower ''clouds'' = ''clouds''"
  by (simp_all add: lower_def lower_char_def)

lemma map_of_PARAM_MAPPING_ran:
  assumes "map_of PARAM_MAPPING k = Some v"
  shows "v \<in> {''temperature_2m'', ''relative_humidity_2m'', ''precipitation'',
               ''wind_speed_10m'', ''weather_code'', ''pressure_msl'', ''cloud_cover''}"
  using assms unfolding PARAM_MAPPING_def by (simp split: if_splits)

lemma map_param_codes:
  "map_param ''temperature_2m'' = ''temperature_2m''"
  "map_param ''relative_humidity_2m'' = ''relative_humidity_2m''"
  "map_param ''precipitation'' = ''precipitation''"
  "map_param ''wind_speed_10m'' = ''wind_speed_10m''"
  "map_param ''weather_code'' = ''weather_code''"
  "map_param ''pressure_msl'' = ''pressure_msl''"
  "map_param ''cloud_cover'' = ''cloud_cover''"
  by (simp_all add: map_param_def lower_code_fixed PARAM_MAPPING_def)

lemma map_param_keys:
  "map_param ''temperature'' = ''temperature_2m''"
  "map_param ''humidity'' = ''relative_humidity_2m''"
  "map_param ''wind_speed'' = ''wind_speed_10m''"
  "map_param ''wind'' = ''wind_speed_10m''"
  "map_param ''weather'' = ''weather_code''"
  "map_param ''pressure'' = ''pressure_msl''"
  "map_param ''clouds'' = ''cloud_cover''"
  by (simp_all add: map_param_def lower_key_fixed PARAM_MAPPING_def)

lemma map_param_code_fixed:
  assumes "v \<in> {''temperature_2m'', ''relative_humidity_2m'', ''precipitation'',
               ''wind_speed_10m'', ''weather_code'', ''pressure_msl'', ''cloud_cover''}"
  shows "map_param v = v"
  using assms by (elim insertE emptyE) (simp_all only: map_param_codes)

lemma map_param_idem: "map_param (map_param p) = map_param p"
proof (cases "map_of PARAM_MAPPING (lower p)")
  case None
  then show ?thesis by (simp add: map_param_def)
next
  case (Some v)
  then have "map_param p = v" by (simp add: map_param_def)
  with map_param_code_fixed [OF map_of_PARAM_MAPPING_ran [OF Some]] show ?thesis by simp
qed

lemma map_param_entry:
  assumes "(k, v) \<in> set PARAM_MAPPING"
  shows "map_param k = v"
proof -
  from assms have
    "(k, v) = (''temperature'', ''temperature_2m'') \<or>
     (k, v) = (''humidity'', ''relative_humidity_2m'') \<or>
     (k, v) = (''precipitation'', ''precipitation'') \<or>
     (k, v) = (''wind_speed'', ''wind_speed_10m'') \<or>
     (k, v) = (''wind'', ''wind_speed_10m'') \<or>
     (k, v) = (''weather'', ''weather_code'') \<or>
     (k, v) = (''pressure'', ''pressure_msl'') \<or>
     (k, v) = (''cloud_cover'', ''cloud_cover'') \<or>
     (k, v) = (''clouds'', ''cloud_cover'')"
    unfolding PARAM_MAPPING_def by (simp only: list.set insert_iff empty_iff simp_thms)
  then show ?thesis
    by (elim disjE; simp only: prod.inject; elim conjE; hypsubst;
        simp only: map_param_keys map_param_codes)
qed

lemma map_param_absent:
  assumes "map_of PARAM_MAPPING (lower p) = None"
  shows "map_param p = p"
  using assms by (simp add: map_param_def)

lemma PARAM_MAPPING_distinct: "distinct (map fst PARAM_MAPPING)"
  by (simp add: PARAM_MAPPING_def)

lemma map_param_lower_entry:
  assumes "(k, v) \<in> set PARAM_MAPPING" and "lower p = k"
  shows "map_param p = v"
proof -
  from PARAM_MAPPING_distinct assms(1) have "map_of PARAM_MAPPING k = Some v"
    by (rule map_of_is_SomeI)
  with assms(2) show ?thesis by (simp add: map_param_def)
qed

text \<open>
  Claim C7, as amended. The mapping that the weather fetcher applies to a parameter name
  is total and idempotent: every key of \<open>PARAM_MAPPING\<close> maps to its fixed provider code;
  names are looked up in lower case, so every name whose lower-cased form is a key maps
  to that key's provider code (\<open>Temperature\<close> maps to \<open>temperature_2m\<close>), and every name
  whose lower-cased form is no key passes through unchanged; mapping twice is mapping
  once; \<open>temperature\<close> maps to \<open>temperature_2m\<close> and \<open>made_up_param\<close> to itself.
\<close>

theorem map_param_total_idempotent:
  "(\<forall>k v. (k, v) \<in> set PARAM_MAPPING \<longrightarrow> map_param k = v) \<and>
   (\<forall>p k v. (k, v) \<in> set PARAM_MAPPING \<and> lower p = k \<longrightarrow> map_param p = v) \<and>
   (\<forall>p. lower p \<notin> set (map fst PARAM_MAPPING) \<longrightarrow> map_param p = p) \<and>
   (\<forall>p. map_param (map_param p) = map_param p) \<and>
   map_param ''temperature'' = ''temperature_2m'' \<and>
   map_param ''Temperature'' = ''temperature_2m'' \<and>
   map_param ''made_up_param'' = ''made_up_param''"
proof (intro conjI allI impI)
  fix k v assume "(k, v) \<in> set PARAM_MAPPING"
  then show "map_param k = v" by (rule map_param_entry)
next
  fix p k v assume "(k, v) \<in> set PARAM_MAPPING \<and> lower p = k"
  then show "map_param p = v" by (blast intro: map_param_lower_entry)
next
  fix p assume "lower p \<notin> set (map fst PARAM_MAPPING)"
  then have "map_of PARAM_MAPPING (lower p) = None"
    by (simp add: map_of_eq_None_iff)
  then show "map_param p = p" by (rule map_param_absent)
next
  fix p show "map_param (map_param p) = map_param p" by (rule map_param_idem)
next
  show "map_param ''temperature'' = ''temperature_2m''" by (rule map_param_keys)
next
  show "map_param ''Temperature'' = ''temperature_2m''" by code_simp
next
  show "map_param ''made_up_param'' = ''made_up_param''"
    by (simp add: map_param_def lower_def lower_char_def PARAM_MAPPING_def)
qed

theorem map_param_total_idempotent_witness:
  "map_param ''humidity'' = ''relative_humidity_2m'' \<and>
   map_param ''WIND'' = ''wind_speed_10m'' \<and>
   map_param ''Cloud_Cover'' = ''cloud_cover'' \<and>
   map_param ''Dew_Point'' = ''Dew_Point'' \<and>
   map_param (map_param ''WIND'') = map_param ''WIND''"
proof -
  have k: "(''humidity'', ''relative_humidity_2m'') \<in> set PARAM_MAPPING"
    by (simp add: PARAM_MAPPING_def)
  have w: "(''wind'', ''wind_speed_10m'') \<in> set PARAM_MAPPING \<and> lower ''WIND'' = ''wind''"
    by code_simp
  have c: "(''cloud_cover'', ''cloud_cover'') \<in> set PARAM_MAPPING \<and>
           lower ''Cloud_Cover'' = ''cloud_cover''"
    by code_simp
  have a: "lower ''Dew_Point'' \<notin> set (map fst PARAM_MAPPING)"
    by code_simp
  from map_param_total_idempotent k w c a show ?thesis by blast
qed

text \<open>
  Claim C7, as stated, fails: \<open>Temperature\<close> is no key of \<open>PARAM_MAPPING\<close>, and the
  fetcher does not pass it through unchanged, since it looks the name up in lower case.
\<close>

theorem map_param_absent_name_counterexample:
  "''Temperature'' \<notin> set (map fst PARAM_MAPPING) \<and>
   map_param ''Temperature'' = ''temperature_2m'' \<and>
   map_param ''Temperature'' \<noteq> ''Temperature''"
  by code_simp

section \<open>Calls of the language model\<close>

lemma and_then_simps [simp]:
  "and_then (Inl e) f = Inl e"
  "and_then (Inr x) f = f x"
  by (simp_all add: and_then_def)

lemma call_llm_declared:
  "call_llm E log messages [] = (llm_endpoint E log messages, log @ [LLMPost messages])"
  by (simp add: call_llm_def)

lemma call_llm_undeclared_keyword:
  "call_llm E log messages (k # ks) = (Inl TypeError, log)"
  by (simp add: call_llm_def)

lemma message_content_llm_reply: "message_content (llm_reply text) = Inr (strip text)"
  by (simp add: message_content_def llm_reply_def)

lemma filter_is_forecast_LLMPost:
  "filter is_forecast (log @ [LLMPost ms]) = filter is_forecast log"
  by simp

text \<open>
  Claim C1. The general-conversation handler is meant to send the helpful-assistant
  instruction and the message to the language model and to return the model's text,
  the apology being left for a failed call. The code never gets there: its call passes
  a keyword argument that \<open>call_llm\<close> does not declare, so for every message, and
  whatever the endpoint would have answered, no request is made and the apology is
  returned.
\<close>

theorem handle_non_weather_query_always_apologises:
  "handle_non_weather_query E log user_input = (Inr general_apology, log)"
  by (simp add: handle_non_weather_query_def call_llm_undeclared_keyword)

section \<open>Intent detection\<close>

lemma detect_intent_unfold:
  "detect_intent E log user_input =
     (case and_then (llm_endpoint E log (intent_messages user_input)) (parse_intent E) of
        Inr intent_data \<Rightarrow> Inr intent_data
      | Inl e \<Rightarrow> Inr not_weather,
      log @ [LLMPost (intent_messages user_input)])"
  by (simp add: detect_intent_def intent_messages_def call_llm_declared split: sum.splits)

lemma detect_intent_log:
  "snd (detect_intent E log user_input) = log @ [LLMPost (intent_messages user_input)]"
  by (simp add: detect_intent_unfold)

lemma detect_intent_returns:
  "\<exists>intent. fst (detect_intent E log user_input) = Inr intent"
  by (simp add: detect_intent_unfold split: sum.splits)

lemma detect_intent_no_forecast:
  assumes "detect_intent E log user_input = (r, log1)"
  shows "filter is_forecast log1 = filter is_forecast log"
proof -
  from assms have "log1 = snd (detect_intent E log user_input)" by simp
  then show ?thesis by (simp add: detect_intent_log)
qed

text \<open>
  Claim C6. Whenever intent detection fails, be it the request to the language model
  (network failure, timeout, non-success status, a body that is no JSON) or anything
  in reading the reply (a reply of another shape, an opening brace with no closing
  brace, text that \<open>json.loads\<close> rejects), \<open>detect_intent\<close> returns exactly the intent
  \<open>{"is_weather_query": False}\<close> and raises nothing.
\<close>

theorem detect_intent_fails_open:
  assumes "llm_endpoint E log (intent_messages user_input) = Inl e \<or>
           (\<exists>llm_response. llm_endpoint E log (intent_messages user_input) = Inr llm_response \<and>
              parse_intent E llm_response = Inl e)"
  shows "detect_intent E log user_input =
           (Inr not_weather, log @ [LLMPost (intent_messages user_input)])"
  using assms by (auto simp: detect_intent_unfold)

theorem detect_intent_fails_open_witness:
  "detect_intent (stub_env (\<lambda>log ms. Inl HTTPError) (\<lambda>c. Inl HTTPError) (\<lambda>s. Inl JSONDecodeError))
     [] ''Will it rain in Pune?''
     = (Inr not_weather, [LLMPost (intent_messages ''Will it rain in Pune?'')]) \<and>
   detect_intent
     (stub_env (\<lambda>log ms. Inr (llm_reply ''Sure: {is_weather_query: yes'')) (\<lambda>c. Inl HTTPError)
        (\<lambda>s. Inl JSONDecodeError))
     [] ''Will it rain in Pune?''
     = (Inr not_weather, [LLMPost (intent_messages ''Will it rain in Pune?'')])"
proof -
  let ?E1 = "stub_env (\<lambda>log ms. Inl HTTPError) (\<lambda>c. Inl HTTPError) (\<lambda>s. Inl JSONDecodeError)"
  let ?E2 = "stub_env (\<lambda>log ms. Inr (llm_reply ''Sure: {is_weather_query: yes''))
               (\<lambda>c. Inl HTTPError) (\<lambda>s. Inl JSONDecodeError)"
  let ?m = "''Will it rain in Pune?''"
  have net: "llm_endpoint ?E1 [] (intent_messages ?m) = Inl HTTPError \<or>
             (\<exists>r. llm_endpoint ?E1 [] (intent_messages ?m) = Inr r \<and>
                parse_intent ?E1 r = Inl HTTPError)"
    by (simp add: stub_env_def)
  have bad: "parse_intent ?E2 (llm_reply ''Sure: {is_weather_query: yes'') = Inl ValueError"
    by code_simp
  have malformed: "llm_endpoint ?E2 [] (intent_messages ?m) = Inl ValueError \<or>
             (\<exists>r. llm_endpoint ?E2 [] (intent_messages ?m) = Inr r \<and>
                parse_intent ?E2 r = Inl ValueError)"
    using bad by (simp add: stub_env_def)
  from detect_intent_fails_open [OF net] detect_intent_fails_open [OF malformed]
  show ?thesis by simp
qed

section \<open>The text handed to the JSON parser\<close>

lemma takeWhile_upto_first:
  assumes "c \<notin> set xs"
  shows "takeWhile (\<lambda>x. x \<noteq> c) (xs @ c # ys) = xs"
  using assms by (induction xs) auto

lemma index_of_first:
  assumes "c \<notin> set pre"
  shows "index_of c (pre @ c # rest) = length pre"
  using assms by (simp add: index_of_def takeWhile_upto_first)

lemma rindex_of_last:
  assumes "c \<notin> set post"
  shows "rindex_of c (pre @ c # post) = Inr (length pre)"
proof -
  have "takeWhile (\<lambda>x. x \<noteq> c) (rev post @ c # rev pre) = rev post"
    using assms by (intro takeWhile_upto_first) simp
  then show ?thesis by (simp add: rindex_of_def)
qed

lemma extract_json_first_to_last:
  assumes "CHR ''{'' \<notin> set pre" and "CHR ''}'' \<notin> set post"
  shows "extract_json (pre @ CHR ''{'' # mid @ CHR ''}'' # post) = Inr (CHR ''{'' # mid @ [CHR ''}''])"
proof -
  let ?s = "pre @ CHR ''{'' # mid @ CHR ''}'' # post"
  have i: "index_of CHR ''{'' ?s = length pre"
    using assms(1) by (rule index_of_first)
  have "rindex_of CHR ''}'' ((pre @ CHR ''{'' # mid) @ CHR ''}'' # post)
          = Inr (length (pre @ CHR ''{'' # mid))"
    using assms(2) by (rule rindex_of_last)
  then have r: "rindex_of CHR ''}'' ?s = Inr (Suc (length pre + length mid))" by simp
  have "slice ?s (length pre) (Suc (Suc (length pre + length mid))) = CHR ''{'' # mid @ [CHR ''}'']"
    by (simp add: slice_def)
  with i r show ?thesis by (simp add: extract_json_def)
qed

lemma extract_json_no_brace:
  assumes "CHR ''{'' \<notin> set content"
  shows "extract_json content = Inr content"
  using assms by (simp add: extract_json_def)

lemma extract_json_unclosed:
  assumes "CHR ''{'' \<in> set content" and "CHR ''}'' \<notin> set content"
  shows "extract_json content = Inl ValueError"
  using assms by (simp add: extract_json_def rindex_of_def)

text \<open>
  Claim C3, as amended. For every raw model text returned during intent detection,
  \<open>detect_intent\<close> takes the substring that runs from the first opening brace of the
  (stripped) text to its last closing brace, whatever braces lie between them, and
  parses that substring as the intent JSON; prose before the first opening brace and
  after the last closing brace is tolerated.
\<close>

theorem detect_intent_parses_first_to_last_brace:
  assumes "llm_endpoint E log (intent_messages user_input) = Inr llm_response"
    and "message_content llm_response = Inr (pre @ CHR ''{'' # mid @ CHR ''}'' # post)"
    and "CHR ''{'' \<notin> set pre" and "CHR ''}'' \<notin> set post"
  shows "fst (detect_intent E log user_input) =
           (case json_loads E (CHR ''{'' # mid @ [CHR ''}'']) of
              Inr intent \<Rightarrow> Inr intent
            | Inl e \<Rightarrow> Inr not_weather)"
  using assms
  by (simp add: detect_intent_unfold parse_intent_def extract_json_first_to_last)

theorem detect_intent_parses_first_to_last_brace_witness:
  \<open>fst (detect_intent
      (stub_env (llm_says (llm_reply ''Here it is: {"is_weather_query": true, "tags": {}} Bye''))
         forecast_down
         (loads_only ''{"is_weather_query": true, "tags": {}}''
            (JObj [(''is_weather_query'', JBool True), (''tags'', JObj [])])))
      [] ''Weather in Pune?'')
   = Inr (JObj [(''is_weather_query'', JBool True), (''tags'', JObj [])])\<close>
proof -
  let ?J = "JObj [(''is_weather_query'', JBool True), (''tags'', JObj [])]"
  let ?E = \<open>stub_env (llm_says (llm_reply ''Here it is: {"is_weather_query": true, "tags": {}} Bye''))
         forecast_down (loads_only ''{"is_weather_query": true, "tags": {}}'' ?J)\<close>
  have a: \<open>llm_endpoint ?E [] (intent_messages ''Weather in Pune?'')
             = Inr (llm_reply ''Here it is: {"is_weather_query": true, "tags": {}} Bye'')\<close>
    by (simp add: stub_env_def llm_says_def)
  have s: \<open>strip ''Here it is: {"is_weather_query": true, "tags": {}} Bye''
             = ''Here it is: {"is_weather_query": true, "tags": {}} Bye''\<close>
    by code_simp
  have b: \<open>message_content (llm_reply ''Here it is: {"is_weather_query": true, "tags": {}} Bye'')
             = Inr (''Here it is: '' @ CHR ''{'' # ''"is_weather_query": true, "tags": {}''
                      @ CHR ''}'' # '' Bye'')\<close>
    by (simp add: message_content_llm_reply s)
  have c: "CHR ''{'' \<notin> set ''Here it is: ''" by simp
  have d: "CHR ''}'' \<notin> set '' Bye''" by simp
  from detect_intent_parses_first_to_last_brace [OF a b c d]
  show ?thesis by (simp add: stub_env_def loads_only_def)
qed

text \<open>
  Claim C3, as stated, fails. In the text below the first balanced substring is the
  weather intent itself, but the code takes everything up to the last closing brace,
  which is no JSON text, so that the intent is lost and detection falls back to
  \<open>{"is_weather_query": False}\<close>.
\<close>

theorem extract_json_not_first_balanced_counterexample:
  \<open>spec_first_balanced ''{"is_weather_query": true} as {}'' = Some ''{"is_weather_query": true}'' \<and>
   extract_json ''{"is_weather_query": true} as {}'' = Inr ''{"is_weather_query": true} as {}'' \<and>
   fst (detect_intent
      (stub_env (llm_says (llm_reply ''{"is_weather_query": true} as {}'')) forecast_down
         (loads_only ''{"is_weather_query": true}'' (JObj [(''is_weather_query'', JBool True)])))
      [] ''Weather in Pune?'')
   = Inr not_weather\<close>
proof (intro conjI)
  show \<open>spec_first_balanced ''{"is_weather_query": true} as {}'' = Some ''{"is_weather_query": true}''\<close>
    by code_simp
  show \<open>extract_json ''{"is_weather_query": true} as {}'' = Inr ''{"is_weather_query": true} as {}''\<close>
    by code_simp
  have \<open>parse_intent
      (stub_env (llm_says (llm_reply ''{"is_weather_query": true} as {}'')) forecast_down
         (loads_only ''{"is_weather_query": true}'' (JObj [(''is_weather_query'', JBool True)])))
      (llm_reply ''{"is_weather_query": true} as {}'') = Inl JSONDecodeError\<close>
    by code_simp
  then show \<open>fst (detect_intent
      (stub_env (llm_says (llm_reply ''{"is_weather_query": true} as {}'')) forecast_down
         (loads_only ''{"is_weather_query": true}'' (JObj [(''is_weather_query'', JBool True)])))
      [] ''Weather in Pune?'')
   = Inr not_weather\<close>
    by (simp add: detect_intent_unfold stub_env_def llm_says_def)
qed

section \<open>The chat endpoint\<close>

lemma detect_intent_decodes:
  assumes "llm_endpoint E log (intent_messages user_input) = Inr (llm_reply text)"
    and "strip text = text" and "extract_json text = Inr text"
    and "json_loads E text = Inr intent"
  shows "detect_intent E log user_input = (Inr intent, log @ [LLMPost (intent_messages user_input)])"
  using assms by (simp add: detect_intent_unfold parse_intent_def message_content_llm_reply)

lemma handle_non_weather_query_returns:
  "\<exists>reply log2. handle_non_weather_query E log user_input = (Inr reply, log2) \<and>
     filter is_forecast log2 = filter is_forecast log"
  by (simp add: handle_non_weather_query_def call_llm_def split: sum.splits)

lemma fetch_weather_log:
  assumes "fetch_weather E log latitude longitude parameters = (r, log2)"
  shows "log2 = log \<or> (\<exists>current. log2 = log @ [ForecastGet latitude longitude current])"
  using assms by (auto simp: fetch_weather_def Let_def split: sum.splits)

lemma fetch_weather_once:
  assumes "fetch_weather E log latitude longitude parameters = (r, log2)"
  shows "length (filter is_forecast log2) \<le> Suc (length (filter is_forecast log))"
  using fetch_weather_log [OF assms] by auto

lemma fetch_weather_temperature:
  "fetch_weather E log latitude longitude (JArr [JStr ''temperature'']) =
     (forecast_endpoint E log latitude longitude ''temperature_2m'',
      log @ [ForecastGet latitude longitude ''temperature_2m''])"
  by (simp add: fetch_weather_def Let_def map_param_keys)

lemma chat_dict_intent:
  assumes "detect_intent E log message = (Inr (JObj intent), log1)"
  shows "chat E log message =
     (if \<not> truthy (dict_get intent ''is_weather_query'' (JBool False)) then
        (case handle_non_weather_query E log1 message of
           (Inl e, log2) \<Rightarrow> (Inl server_error, log2)
         | (Inr response_text, log2) \<Rightarrow> (Inr \<lparr>response = response_text\<rparr>, log2))
      else if \<not> truthy (dict_get intent ''latitude'' JNull)
              \<or> \<not> truthy (dict_get intent ''longitude'' JNull) then
        (Inr \<lparr>response = clarification\<rparr>, log1)
      else
        (case fetch_weather E log1 (dict_get intent ''latitude'' JNull)
                (dict_get intent ''longitude'' JNull)
                (dict_get intent ''parameters'' (JArr [JStr ''temperature''])) of
           (Inl e, log2) \<Rightarrow>
             (Inr \<lparr>response = fetch_apology E (dict_get intent ''location'' (JStr ''Unknown''))\<rparr>,
              log2)
         | (Inr weather_data, log2) \<Rightarrow>
             (case format_response E log2 (dict_get intent ''location'' (JStr ''Unknown''))
                     weather_data (dict_get intent ''parameters'' (JArr [JStr ''temperature''])) of
                (Inl e, log3) \<Rightarrow> (Inl server_error, log3)
              | (Inr response_text, log3) \<Rightarrow> (Inr \<lparr>response = response_text\<rparr>, log3))))"
  using assms by (simp add: chat_def)

lemma chat_falsy_coordinates:
  assumes "detect_intent E log message = (Inr (JObj intent), log1)"
    and "truthy (dict_get intent ''is_weather_query'' (JBool False))"
    and "\<not> truthy (dict_get intent ''latitude'' JNull)
         \<or> \<not> truthy (dict_get intent ''longitude'' JNull)"
  shows "chat E log message = (Inr \<lparr>response = clarification\<rparr>, log1) \<and>
         filter is_forecast log1 = filter is_forecast log"
  using assms(2,3) detect_intent_no_forecast [OF assms(1)]
  by (simp add: chat_dict_intent [OF assms(1)])

text \<open>
  Claim C2. For every message whose detected intent is classified as no weather query
  (the intent's \<open>is_weather_query\<close> is absent or falsy), the response of \<open>chat\<close> is
  exactly what the general-conversation handler returns for that message, and the
  forecast endpoint is not requested during the request.
\<close>

theorem chat_non_weather:
  assumes "detect_intent E log message = (Inr (JObj intent), log1)"
    and "\<not> truthy (dict_get intent ''is_weather_query'' (JBool False))"
  shows "\<exists>reply log2. handle_non_weather_query E log1 message = (Inr reply, log2) \<and>
           chat E log message = (Inr \<lparr>response = reply\<rparr>, log2) \<and>
           filter is_forecast log2 = filter is_forecast log"
proof -
  from handle_non_weather_query_returns [of E log1 message]
  obtain reply log2 where h: "handle_non_weather_query E log1 message = (Inr reply, log2)"
    and f: "filter is_forecast log2 = filter is_forecast log1"
    by blast
  have "chat E log message = (Inr \<lparr>response = reply\<rparr>, log2)"
    using assms(2) h by (simp add: chat_dict_intent [OF assms(1)])
  with h f detect_intent_no_forecast [OF assms(1)] show ?thesis by simp
qed

theorem chat_non_weather_witness:
  "chat (stub_env (llm_says (llm_reply joke_text)) forecast_down (loads_only joke_text (JObj joke_intent)))
     [] ''Tell me a joke''
   = (Inr \<lparr>response = general_apology\<rparr>, [LLMPost (intent_messages ''Tell me a joke'')])"
proof -
  let ?E = "stub_env (llm_says (llm_reply joke_text)) forecast_down
              (loads_only joke_text (JObj joke_intent))"
  let ?m = "''Tell me a joke''"
  have s: "strip joke_text = joke_text" by code_simp
  have x: "extract_json joke_text = Inr joke_text" by code_simp
  have d: "detect_intent ?E [] ?m = (Inr (JObj joke_intent), [] @ [LLMPost (intent_messages ?m)])"
    by (rule detect_intent_decodes [OF _ s x]) (simp_all add: stub_env_def llm_says_def loads_only_def)
  have n: "\<not> truthy (dict_get joke_intent ''is_weather_query'' (JBool False))"
    by (simp add: joke_intent_def dict_get_def)
  from chat_non_weather [OF d n] show ?thesis
    by (auto simp: handle_non_weather_query_def call_llm_undeclared_keyword)
qed

text \<open>
  Claim C4. For every detected intent that is a weather query but has no latitude or no
  longitude, \<open>chat\<close> returns exactly the fixed clarification sentence, and the forecast
  endpoint is not requested.
\<close>

theorem chat_missing_coordinates:
  assumes "detect_intent E log message = (Inr (JObj intent), log1)"
    and "truthy (dict_get intent ''is_weather_query'' (JBool False))"
    and "map_of intent ''latitude'' = None \<or> map_of intent ''longitude'' = None"
  shows "chat E log message = (Inr \<lparr>response = clarification\<rparr>, log1) \<and>
         filter is_forecast log1 = filter is_forecast log"
proof (rule chat_falsy_coordinates [OF assms(1,2)])
  from assms(3)
  show "\<not> truthy (dict_get intent ''latitude'' JNull)
        \<or> \<not> truthy (dict_get intent ''longitude'' JNull)"
    by (auto simp: dict_get_def)
qed

theorem chat_missing_coordinates_witness:
  "chat (stub_env (llm_says (llm_reply coast_text)) forecast_down (loads_only coast_text (JObj coast_intent)))
     [] ''How is the weather on the coast?''
   = (Inr \<lparr>response = clarification\<rparr>,
      [LLMPost (intent_messages ''How is the weather on the coast?'')])"
proof -
  let ?E = "stub_env (llm_says (llm_reply coast_text)) forecast_down
              (loads_only coast_text (JObj coast_intent))"
  let ?m = "''How is the weather on the coast?''"
  have s: "strip coast_text = coast_text" by code_simp
  have x: "extract_json coast_text = Inr coast_text" by code_simp
  have d: "detect_intent ?E [] ?m = (Inr (JObj coast_intent), [] @ [LLMPost (intent_messages ?m)])"
    by (rule detect_intent_decodes [OF _ s x]) (simp_all add: stub_env_def llm_says_def loads_only_def)
  have w: "truthy (dict_get coast_intent ''is_weather_query'' (JBool False))"
    by (simp add: coast_intent_def dict_get_def)
  have c: "map_of coast_intent ''latitude'' = None \<or> map_of coast_intent ''longitude'' = None"
    by (simp add: coast_intent_def)
  from chat_missing_coordinates [OF d w c] show ?thesis by simp
qed

text \<open>
  Claim C10. For every weather intent whose latitude or longitude is present but falsy
  (the int 0, the floats 0.0 and -0.0, and any other falsy value), \<open>chat\<close> treats the
  coordinates as missing: it returns the fixed clarification sentence and does not
  request the forecast endpoint, although numeric coordinates were supplied.
\<close>

theorem chat_zero_coordinates:
  assumes "detect_intent E log message = (Inr (JObj intent), log1)"
    and "truthy (dict_get intent ''is_weather_query'' (JBool False))"
    and "(\<exists>v. map_of intent ''latitude'' = Some v \<and> \<not> truthy v) \<or>
         (\<exists>v. map_of intent ''longitude'' = Some v \<and> \<not> truthy v)"
  shows "chat E log message = (Inr \<lparr>response = clarification\<rparr>, log1) \<and>
         filter is_forecast log1 = filter is_forecast log \<and>
         \<not> truthy (JInt 0) \<and> \<not> truthy (JFloat 0) \<and> \<not> truthy (JFloat 0x8000000000000000)"
proof -
  from assms(3)
  have "\<not> truthy (dict_get intent ''latitude'' JNull)
        \<or> \<not> truthy (dict_get intent ''longitude'' JNull)"
    by (auto simp: dict_get_def)
  from chat_falsy_coordinates [OF assms(1,2) this] show ?thesis by simp
qed

theorem chat_zero_coordinates_witness:
  "chat (stub_env (llm_says (llm_reply greenwich_text)) (forecast_says (JObj pune_payload))
           (loads_only greenwich_text (JObj greenwich_intent)))
     [] ''Weather in Greenwich?''
   = (Inr \<lparr>response = clarification\<rparr>, [LLMPost (intent_messages ''Weather in Greenwich?'')])"
proof -
  let ?E = "stub_env (llm_says (llm_reply greenwich_text)) (forecast_says (JObj pune_payload))
              (loads_only greenwich_text (JObj greenwich_intent))"
  let ?m = "''Weather in Greenwich?''"
  have s: "strip greenwich_text = greenwich_text" by code_simp
  have x: "extract_json greenwich_text = Inr greenwich_text" by code_simp
  have d: "detect_intent ?E [] ?m
             = (Inr (JObj greenwich_intent), [] @ [LLMPost (intent_messages ?m)])"
    by (rule detect_intent_decodes [OF _ s x]) (simp_all add: stub_env_def llm_says_def loads_only_def)
  have w: "truthy (dict_get greenwich_intent ''is_weather_query'' (JBool False))"
    by (simp add: greenwich_intent_def dict_get_def)
  have z: "(\<exists>v. map_of greenwich_intent ''latitude'' = Some v \<and> \<not> truthy v) \<or>
           (\<exists>v. map_of greenwich_intent ''longitude'' = Some v \<and> \<not> truthy v)"
    by (simp add: greenwich_intent_def)
  from chat_zero_coordinates [OF d w z] show ?thesis by simp
qed

section \<open>The weather path\<close>

text \<open>
  Claim C5. For every weather intent with truthy coordinates, if \<open>fetch_weather\<close>
  raises (a non-success status, a network failure or a timeout of the forecast
  request, or anything else), \<open>chat\<close> catches the error itself and returns the fixed
  apology sentence that names the intent's location (\<open>Unknown\<close> when the intent has
  none); at most one forecast request was made, so the fetch was not retried.
\<close>

theorem chat_fetch_failure:
  assumes "detect_intent E log message = (Inr (JObj intent), log1)"
    and "truthy (dict_get intent ''is_weather_query'' (JBool False))"
    and "truthy (dict_get intent ''latitude'' JNull)"
    and "truthy (dict_get intent ''longitude'' JNull)"
    and "fetch_weather E log1 (dict_get intent ''latitude'' JNull)
           (dict_get intent ''longitude'' JNull)
           (dict_get intent ''parameters'' (JArr [JStr ''temperature''])) = (Inl e, log2)"
  shows "chat E log message =
           (Inr \<lparr>response =
                   ''I'm sorry, I couldn't fetch the weather data for ''
                     @ py_str E (dict_get intent ''location'' (JStr ''Unknown''))
                     @ '' at the moment. Please try again later.''\<rparr>,
            log2) \<and>
         length (filter is_forecast log2) \<le> Suc (length (filter is_forecast log))"
proof -
  have "chat E log message =
          (Inr \<lparr>response = fetch_apology E (dict_get intent ''location'' (JStr ''Unknown''))\<rparr>, log2)"
    using assms(2-5) by (simp add: chat_dict_intent [OF assms(1)])
  moreover have "length (filter is_forecast log2) \<le> Suc (length (filter is_forecast log))"
    using fetch_weather_once [OF assms(5)] detect_intent_no_forecast [OF assms(1)] by simp
  ultimately show ?thesis by (simp add: fetch_apology_def)
qed

theorem chat_fetch_failure_witness:
  "chat (stub_env (llm_says (llm_reply pune_text)) forecast_down
           (loads_only pune_text (JObj pune_intent)))
     [] ''Weather in Pune?''
   = (Inr \<lparr>response =
         ''I'm sorry, I couldn't fetch the weather data for Pune at the moment. Please try again later.''\<rparr>,
      [LLMPost (intent_messages ''Weather in Pune?''),
       ForecastGet (JFloat 0x4032800000000000) (JFloat 0x4052780000000000) ''temperature_2m''])"
proof -
  let ?E = "stub_env (llm_says (llm_reply pune_text)) forecast_down
              (loads_only pune_text (JObj pune_intent))"
  let ?m = "''Weather in Pune?''"
  let ?log1 = "[] @ [LLMPost (intent_messages ?m)]"
  have s: "strip pune_text = pune_text" by code_simp
  have x: "extract_json pune_text = Inr pune_text" by code_simp
  have d: "detect_intent ?E [] ?m = (Inr (JObj pune_intent), ?log1)"
    by (rule detect_intent_decodes [OF _ s x]) (simp_all add: stub_env_def llm_says_def loads_only_def)
  have w: "truthy (dict_get pune_intent ''is_weather_query'' (JBool False))"
    by (simp add: pune_intent_def dict_get_def)
  have lat: "dict_get pune_intent ''latitude'' JNull = JFloat 0x4032800000000000"
    by (simp add: pune_intent_def dict_get_def)
  have lon: "dict_get pune_intent ''longitude'' JNull = JFloat 0x4052780000000000"
    by (simp add: pune_intent_def dict_get_def)
  have par: "dict_get pune_intent ''parameters'' (JArr [JStr ''temperature'']) = JArr [JStr ''temperature'']"
    by (simp add: pune_intent_def dict_get_def)
  have loc: "dict_get pune_intent ''location'' (JStr ''Unknown'') = JStr ''Pune''"
    by (simp add: pune_intent_def dict_get_def)
  have tlat: "truthy (dict_get pune_intent ''latitude'' JNull)" by (simp add: lat)
  have tlon: "truthy (dict_get pune_intent ''longitude'' JNull)" by (simp add: lon)
  have f: "fetch_weather ?E ?log1 (dict_get pune_intent ''latitude'' JNull)
             (dict_get pune_intent ''longitude'' JNull)
             (dict_get pune_intent ''parameters'' (JArr [JStr ''temperature'']))
           = (Inl HTTPError,
              ?log1 @ [ForecastGet (JFloat 0x4032800000000000) (JFloat 0x4052780000000000)
                         ''temperature_2m''])"
    by (simp only: lat lon par fetch_weather_temperature)
       (simp add: stub_env_def forecast_down_def)
  from chat_fetch_failure [OF d w tlat tlon f] show ?thesis by (simp add: loc)
qed

text \<open>
  Claim C8. For every detected weather intent (with truthy coordinates) in which the
  \<open>parameters\<close> field is omitted, the parameter list handed to \<open>fetch_weather\<close> and to
  \<open>format_response\<close> is exactly \<open>["temperature"]\<close>; the forecast request then asks for
  \<open>temperature_2m\<close>.
\<close>

theorem chat_default_parameters:
  assumes "detect_intent E log message = (Inr (JObj intent), log1)"
    and "truthy (dict_get intent ''is_weather_query'' (JBool False))"
    and "truthy (dict_get intent ''latitude'' JNull)"
    and "truthy (dict_get intent ''longitude'' JNull)"
    and "map_of intent ''parameters'' = None"
  shows "chat E log message =
          (case fetch_weather E log1 (dict_get intent ''latitude'' JNull)
                  (dict_get intent ''longitude'' JNull) (JArr [JStr ''temperature'']) of
             (Inl e, log2) \<Rightarrow>
               (Inr \<lparr>response = fetch_apology E (dict_get intent ''location'' (JStr ''Unknown''))\<rparr>,
                log2)
           | (Inr weather_data, log2) \<Rightarrow>
               (case format_response E log2 (dict_get intent ''location'' (JStr ''Unknown''))
                       weather_data (JArr [JStr ''temperature'']) of
                  (Inl e, log3) \<Rightarrow> (Inl server_error, log3)
                | (Inr response_text, log3) \<Rightarrow> (Inr \<lparr>response = response_text\<rparr>, log3))) \<and>
         fetch_weather E log1 (dict_get intent ''latitude'' JNull)
            (dict_get intent ''longitude'' JNull) (JArr [JStr ''temperature'']) =
          (forecast_endpoint E log1 (dict_get intent ''latitude'' JNull)
             (dict_get intent ''longitude'' JNull) ''temperature_2m'',
           log1 @ [ForecastGet (dict_get intent ''latitude'' JNull)
                     (dict_get intent ''longitude'' JNull) ''temperature_2m''])"
proof -
  from assms(5)
  have p: "dict_get intent ''parameters'' (JArr [JStr ''temperature'']) = JArr [JStr ''temperature'']"
    by (simp add: dict_get_def)
  show ?thesis
    using assms(2-4) unfolding chat_dict_intent [OF assms(1)] p
    by (simp add: fetch_weather_temperature)
qed

lemma format_response_pune:
  "format_response
     (stub_env (llm_once (llm_reply pune_text)) (forecast_says (JObj pune_payload))
        (loads_only pune_text (JObj pune_intent)))
     (l # ls) (JStr ''Pune'') (JObj pune_payload) (JArr [JStr ''temperature''])
   = (Inr ''Weather data for Pune: <repr>'',
      (l # ls) @
      [LLMPost (format_messages
         (stub_env (llm_once (llm_reply pune_text)) (forecast_says (JObj pune_payload))
            (loads_only pune_text (JObj pune_intent)))
         (JStr ''Pune'') [(''temperature_2m'', JFloat 0x403C800000000000)]
         (JObj [(''temperature_2m'', JStr ([CHR 0xB0] @ ''C''))]))])"
  by (simp add: format_response_def pune_payload_def dict_get_def map_param_keys
        call_llm_declared format_messages_def)
     (simp add: stub_env_def llm_once_def format_fallback_def)

theorem chat_default_parameters_witness:
  "chat (stub_env (llm_once (llm_reply pune_text)) (forecast_says (JObj pune_payload))
           (loads_only pune_text (JObj pune_intent)))
     [] ''Weather in Pune?''
   = (Inr \<lparr>response = ''Weather data for Pune: <repr>''\<rparr>,
      [LLMPost (intent_messages ''Weather in Pune?''),
       ForecastGet (JFloat 0x4032800000000000) (JFloat 0x4052780000000000) ''temperature_2m'',
       LLMPost (format_messages
         (stub_env (llm_once (llm_reply pune_text)) (forecast_says (JObj pune_payload))
            (loads_only pune_text (JObj pune_intent)))
         (JStr ''Pune'') [(''temperature_2m'', JFloat 0x403C800000000000)]
         (JObj [(''temperature_2m'', JStr ([CHR 0xB0] @ ''C''))]))])"
proof -
  let ?E = "stub_env (llm_once (llm_reply pune_text)) (forecast_says (JObj pune_payload))
              (loads_only pune_text (JObj pune_intent))"
  let ?m = "''Weather in Pune?''"
  let ?log1 = "[] @ [LLMPost (intent_messages ?m)]"
  have s: "strip pune_text = pune_text" by code_simp
  have x: "extract_json pune_text = Inr pune_text" by code_simp
  have d: "detect_intent ?E [] ?m = (Inr (JObj pune_intent), ?log1)"
    by (rule detect_intent_decodes [OF _ s x]) (simp_all add: stub_env_def llm_once_def loads_only_def)
  have w: "truthy (dict_get pune_intent ''is_weather_query'' (JBool False))"
    by (simp add: pune_intent_def dict_get_def)
  have lat: "dict_get pune_intent ''latitude'' JNull = JFloat 0x4032800000000000"
    by (simp add: pune_intent_def dict_get_def)
  have lon: "dict_get pune_intent ''longitude'' JNull = JFloat 0x4052780000000000"
    by (simp add: pune_intent_def dict_get_def)
  have loc: "dict_get pune_intent ''location'' (JStr ''Unknown'') = JStr ''Pune''"
    by (simp add: pune_intent_def dict_get_def)
  have tlat: "truthy (dict_get pune_intent ''latitude'' JNull)" by (simp add: lat)
  have tlon: "truthy (dict_get pune_intent ''longitude'' JNull)" by (simp add: lon)
  have par: "map_of pune_intent ''parameters'' = None" by (simp add: pune_intent_def)
  have fc: "forecast_endpoint ?E lg la lo cur = Inr (JObj pune_payload)" for lg la lo cur
    by (simp add: stub_env_def forecast_says_def)
  from chat_default_parameters [OF d w tlat tlon par] show ?thesis
    unfolding lat lon loc by (simp add: fc format_response_pune)
qed

section \<open>The fallback of the formatter\<close>

lemma build_data_dict_strs:
  "\<exists>data_dict. build_data_dict (JObj current) (map JStr ps) acc = Inr data_dict \<and>
     map_of data_dict = map_of acc ++ (map_of current |` (map_param ` set ps))"
proof (induction ps arbitrary: acc)
  case Nil
  show ?case by simp
next
  case (Cons p ps)
  show ?case
  proof (cases "map_of current (map_param p)")
    case None
    then have absent: "map_param p \<notin> set (map fst current)"
      by (simp add: map_of_eq_None_iff)
    from Cons.IH [of acc] obtain d where
      d: "build_data_dict (JObj current) (map JStr ps) acc = Inr d"
      and m: "map_of d = map_of acc ++ (map_of current |` (map_param ` set ps))"
      by blast
    have "map_of current |` (map_param ` set (p # ps)) = map_of current |` (map_param ` set ps)"
      using None by (auto simp: restrict_map_def fun_eq_iff)
    with d m absent show ?thesis by simp
  next
    case (Some v)
    then have present: "map_param p \<in> set (map fst current)"
      by (metis map_of_eq_None_iff option.distinct(1) set_map)
    from Cons.IH [of "AList.update (map_param p) v acc"] obtain d where
      d: "build_data_dict (JObj current) (map JStr ps) (AList.update (map_param p) v acc) = Inr d"
      and m: "map_of d = map_of (AList.update (map_param p) v acc)
                ++ (map_of current |` (map_param ` set ps))"
      by blast
    have "map_of (AList.update (map_param p) v acc) ++ (map_of current |` (map_param ` set ps))
            = map_of acc ++ (map_of current |` (map_param ` set (p # ps)))"
      using Some
      by (auto simp: AList.update_conv' restrict_map_def map_add_def fun_eq_iff
               split: option.splits)
    with d m present Some show ?thesis by simp
  qed
qed

text \<open>
  Claim C9. For a location, a forecast payload whose \<open>current\<close> entry is a mapping (or
  is absent) and a list of parameter names, the formatter builds the data mapping: the
  payload's current values restricted to the requested parameters' provider codes.
  Whenever the formatting call of the language model then fails (the request, or
  reading the reply), \<open>format_response\<close> raises nothing and returns the fallback text
  made of the location and that data mapping.
\<close>

theorem format_response_fallback:
  assumes "dict_get payload ''current'' (JObj []) = JObj current"
  shows "\<exists>data_dict.
           build_data_dict (JObj current) (map JStr parameters) [] = Inr data_dict \<and>
           map_of data_dict = map_of current |` (map_param ` set parameters) \<and>
           (\<forall>e. and_then
                  (llm_endpoint E log
                     (format_messages E location data_dict
                        (dict_get payload ''current_units'' (JObj []))))
                  message_content = Inl e \<longrightarrow>
              format_response E log location (JObj payload) (JArr (map JStr parameters)) =
                (Inr (''Weather data for '' @ py_str E location @ '': ''
                        @ py_repr E (JObj data_dict)),
                 log @ [LLMPost (format_messages E location data_dict
                                   (dict_get payload ''current_units'' (JObj [])))]))"
proof -
  from build_data_dict_strs [of current parameters "[]"] obtain d where
    d: "build_data_dict (JObj current) (map JStr parameters) [] = Inr d"
    and m: "map_of d = map_of current |` (map_param ` set parameters)"
    by auto
  have "format_response E log location (JObj payload) (JArr (map JStr parameters)) =
          (Inr (''Weather data for '' @ py_str E location @ '': '' @ py_repr E (JObj d)),
           log @ [LLMPost (format_messages E location d
                             (dict_get payload ''current_units'' (JObj [])))])"
    if "and_then
          (llm_endpoint E log
             (format_messages E location d (dict_get payload ''current_units'' (JObj []))))
          message_content = Inl e" for e
    using that assms d
    by (simp add: format_response_def format_messages_def call_llm_declared format_fallback_def)
  with d m show ?thesis by blast
qed

theorem format_response_fallback_witness:
  "format_response
     (stub_env llm_down (forecast_says (JObj pune_payload)) (loads_only pune_text (JObj pune_intent)))
     [] (JStr ''Pune'') (JObj pune_payload) (JArr (map JStr [''temperature'', ''humidity'']))
   = (Inr ''Weather data for Pune: <repr>'',
      [LLMPost (format_messages
         (stub_env llm_down (forecast_says (JObj pune_payload))
            (loads_only pune_text (JObj pune_intent)))
         (JStr ''Pune'') [(''temperature_2m'', JFloat 0x403C800000000000)]
         (JObj [(''temperature_2m'', JStr ([CHR 0xB0] @ ''C''))]))])"
proof -
  let ?E = "stub_env llm_down (forecast_says (JObj pune_payload))
              (loads_only pune_text (JObj pune_intent))"
  let ?current = "[(''time'', JStr ''2025-06-01T12:00''),
                   (''temperature_2m'', JFloat 0x403C800000000000)]"
  let ?data = "[(''temperature_2m'', JFloat 0x403C800000000000)]"
  have cur: "dict_get pune_payload ''current'' (JObj []) = JObj ?current"
    by (simp add: pune_payload_def dict_get_def)
  have units: "dict_get pune_payload ''current_units'' (JObj [])
                 = JObj [(''temperature_2m'', JStr ([CHR 0xB0] @ ''C''))]"
    by (simp add: pune_payload_def dict_get_def)
  have built: "build_data_dict (JObj ?current) (map JStr [''temperature'', ''humidity'']) []
                 = Inr ?data"
    by (simp add: map_param_keys)
  from format_response_fallback [OF cur, of "[''temperature'', ''humidity'']" ?E "[]" "JStr ''Pune''"]
  obtain d where
    b: "build_data_dict (JObj ?current) (map JStr [''temperature'', ''humidity'']) [] = Inr d"
    and fb: "\<And>e. and_then
                  (llm_endpoint ?E []
                     (format_messages ?E (JStr ''Pune'') d
                        (dict_get pune_payload ''current_units'' (JObj []))))
                  message_content = Inl e \<Longrightarrow>
              format_response ?E [] (JStr ''Pune'') (JObj pune_payload)
                  (JArr (map JStr [''temperature'', ''humidity''])) =
                (Inr (''Weather data for '' @ py_str ?E (JStr ''Pune'') @ '': ''
                        @ py_repr ?E (JObj d)),
                 [] @ [LLMPost (format_messages ?E (JStr ''Pune'') d
                                   (dict_get pune_payload ''current_units'' (JObj [])))])"
    by blast
  from b built have d: "d = ?data" by simp
  have down: "and_then
                (llm_endpoint ?E []
                   (format_messages ?E (JStr ''Pune'') d
                      (dict_get pune_payload ''current_units'' (JObj []))))
                message_content = Inl HTTPError"
    by (simp add: stub_env_def llm_down_def)
  from fb [OF down] show ?thesis
    unfolding d units by (simp add: stub_env_def)
qed

end
